theory Spec2Isabelle
  imports Main "HOL-Library.Word" "HOL-Library.AList"
begin

section \<open>Profile infos: the data model\<close>

text \<open>
  A shallow embedding of \<^verbatim>\<open>src/client/component/profile_infos.cpp\<close>. A
  \<^verbatim>\<open>std::string\<close> is a list of bytes, \<^verbatim>\<open>uint64_t\<close> a 64-bit word and
  \<^verbatim>\<open>int32_t\<close> a 32-bit word (read as signed by \<open>sint\<close>).
\<close>

type_synonym byte = "8 word"
type_synonym uint64_t = "64 word"
type_synonym int32_t = "32 word"

text \<open>\<^verbatim>\<open>struct profile_info { int32_t version; std::string ddl; }\<close>\<close>

record profile_info =
  version :: int32_t
  ddl :: "byte list"

text \<open>
  \<^verbatim>\<open>using profile_map = std::unordered_map<uint64_t, profile_info>\<close>. The map is an
  association list: its order stands for the (unspecified) iteration order of the
  hash map, and its keys are kept distinct by every operation below.
\<close>

type_synonym profile_map = "(uint64_t \<times> profile_info) list"

text \<open>
  \<^verbatim>\<open>game::client_s\<close>, as far as this file reads it. The address type
  \<^verbatim>\<open>game::netadr_t\<close> is a parameter.
\<close>

record 'a client_s =
  address :: 'a
  xuid :: uint64_t

text \<open>
  What the code does to the outside, in the order it does it: taking and giving back
  the mutex of \<^verbatim>\<open>utils::concurrency::container\<close>, and \<^verbatim>\<open>network::send\<close>
  with its target, its tag and its data.
\<close>

datatype 'a event = Acquire | Release | NetSend 'a string "byte list"

text \<open>
  The mutable state of the component and of what it writes to: the registry
  \<^verbatim>\<open>profile_mapping\<close>, the function-local \<^verbatim>\<open>static std::atomic_bool update_triggered\<close>,
  the file \<^verbatim>\<open>players/user/profile_info\<close> (absent, or its bytes), the events so far,
  the one-shot tasks waiting in the scheduler (the time each is due), the scheduler's
  clock, and how often \<^verbatim>\<open>game::PCache_DeleteEntries\<close> has run.
\<close>

record 'a world =
  profile_mapping :: profile_map
  update_triggered :: bool
  profile_file :: "byte list option"
  trace :: "'a event list"
  once_tasks :: "nat list"
  clock :: nat
  pcache_deleted :: nat

text \<open>
  What the code reads from its collaborators at a call: the local identity
  \<^verbatim>\<open>steam::SteamUser()->GetSteamID().bits\<close>, the role queries of \<^verbatim>\<open>game\<close>, the
  clients \<^verbatim>\<open>game::foreach_connected_client\<close> visits, in its order, and
  \<^verbatim>\<open>party::is_host\<close>.
\<close>

record 'a env =
  steam_id :: uint64_t
  is_server :: bool
  is_server_running :: bool
  is_client :: bool
  connected_clients :: "'a client_s list"
  is_host :: "'a \<Rightarrow> bool"

definition initial_world :: "byte list option \<Rightarrow> 'a world" where
  "initial_world file =
     \<lparr>profile_mapping = [], update_triggered = False, profile_file = file, trace = [],
      once_tasks = [], clock = 0, pcache_deleted = 0\<rparr>"

section \<open>Bytes of integers\<close>

text \<open>
  The native encoding of the target (x86-64) is little-endian: \<open>le_bytes n x\<close> are the
  \<open>n\<close> low bytes of \<open>x\<close>, lowest first, and \<open>le_nat\<close> reads them back.
\<close>

fun le_bytes :: "nat \<Rightarrow> nat \<Rightarrow> byte list" where
  "le_bytes 0 x = []"
| "le_bytes (Suc n) x = word_of_nat (x mod 256) # le_bytes n (x div 256)"

fun le_nat :: "byte list \<Rightarrow> nat" where
  "le_nat [] = 0"
| "le_nat (b # bs) = unat b + 256 * le_nat bs"

text \<open>
  \<^verbatim>\<open>sizeof(info.version)\<close>, and \<^verbatim>\<open>sizeof\<close> of a \<^verbatim>\<open>size_t\<close>: eight bytes on
  x86-64, the target of the client.
\<close>

definition version_size :: nat where
  "version_size = 4"

definition sizeof_size_t :: nat where
  "sizeof_size_t = 8"

section \<open>The byte buffer\<close>

datatype error = OutOfBounds

text \<open>
  \<^verbatim>\<open>utils::byte_buffer\<close> (utils/byte_buffer.hpp) is not among the sources. The spec
  names its primitives "read/write of integers and length-prefixed strings": an integer
  is written as its fixed-width native bytes, a string as its length followed by its
  bytes, and a read of more bytes than the buffer still holds fails the decode. A
  buffer being written is the bytes so far; a buffer being read is the bytes not yet
  consumed. The spec gives no width for the length field of a string; it is taken to
  be four bytes.
\<close>

text \<open>Modelled from the spec: \<^verbatim>\<open>byte_buffer::write\<close> of raw bytes, which appends them.\<close>

definition write_bytes :: "byte list \<Rightarrow> byte list \<Rightarrow> byte list" where
  "write_bytes bs buffer = buffer @ bs"

text \<open>Modelled from the spec: \<^verbatim>\<open>byte_buffer::write\<close> of a \<^verbatim>\<open>uint64_t\<close>, its eight bytes.\<close>

definition write_uint64 :: "uint64_t \<Rightarrow> byte list \<Rightarrow> byte list" where
  "write_uint64 x buffer = write_bytes (le_bytes 8 (unat x)) buffer"

text \<open>Modelled from the spec: \<^verbatim>\<open>byte_buffer::write\<close> of an \<^verbatim>\<open>int32_t\<close>, its four bytes.\<close>

definition write_int32 :: "int32_t \<Rightarrow> byte list \<Rightarrow> byte list" where
  "write_int32 x buffer = write_bytes (le_bytes 4 (unat x)) buffer"

text \<open>Modelled from the spec: \<^verbatim>\<open>byte_buffer::write_string\<close>, the length and then the bytes.\<close>

definition write_string :: "byte list \<Rightarrow> byte list \<Rightarrow> byte list" where
  "write_string s buffer = write_bytes s (write_bytes (le_bytes 4 (length s)) buffer)"

text \<open>
  Modelled from the spec: the read of \<open>n\<close> raw bytes from a \<^verbatim>\<open>byte_buffer\<close>; it
  fails when fewer are left.
\<close>

definition read_data :: "nat \<Rightarrow> byte list \<Rightarrow> error + (byte list \<times> byte list)" where
  "read_data n buffer =
     (if length buffer < n then Inl OutOfBounds else Inr (take n buffer, drop n buffer))"

text \<open>Modelled from the spec: \<^verbatim>\<open>byte_buffer::read<uint64_t>\<close>.\<close>

definition read_uint64 :: "byte list \<Rightarrow> error + (uint64_t \<times> byte list)" where
  "read_uint64 buffer =
     (case read_data 8 buffer of
        Inl e \<Rightarrow> Inl e
      | Inr (bs, rest) \<Rightarrow> Inr (word_of_nat (le_nat bs), rest))"

text \<open>Modelled from the spec: \<^verbatim>\<open>byte_buffer::read<int32_t>\<close>.\<close>

definition read_int32 :: "byte list \<Rightarrow> error + (int32_t \<times> byte list)" where
  "read_int32 buffer =
     (case read_data 4 buffer of
        Inl e \<Rightarrow> Inl e
      | Inr (bs, rest) \<Rightarrow> Inr (word_of_nat (le_nat bs), rest))"

text \<open>Modelled from the spec: \<^verbatim>\<open>byte_buffer::read_string\<close>, the length and then that many bytes.\<close>

definition read_string :: "byte list \<Rightarrow> error + (byte list \<times> byte list)" where
  "read_string buffer =
     (case read_data 4 buffer of
        Inl e \<Rightarrow> Inl e
      | Inr (bs, rest) \<Rightarrow> read_data (le_nat bs) rest)"

section \<open>The local profile store\<close>

text \<open>
  \<^verbatim>\<open>utils::io::read_file\<close> gives the bytes of the file, or fails when there is no
  file; \<^verbatim>\<open>memcpy(&info.version, data.data(), version_size)\<close> reads the first four
  bytes as the native integer. The length check compares with
  \<^verbatim>\<open>sizeof(version_size)\<close>, the size of the \<^verbatim>\<open>size_t\<close> constant, not with
  \<^verbatim>\<open>version_size\<close> itself.
\<close>

definition load_profile_info :: "'a world \<Rightarrow> profile_info option" where
  "load_profile_info w =
     (case profile_file w of
        None \<Rightarrow> None
      | Some data \<Rightarrow>
          if length data < sizeof_size_t then None
          else Some \<lparr>version = word_of_nat (le_nat (take version_size data)),
                     ddl = drop version_size data\<rparr>)"

text \<open>
  \<^verbatim>\<open>update_profile_info\<close>: the four bytes of the version, then the payload, written over
  the file.
\<close>

definition update_profile_info :: "profile_info \<Rightarrow> 'a world \<Rightarrow> 'a world" where
  "update_profile_info info w =
     w\<lparr>profile_file := Some (le_bytes 4 (unat (version info)) @ ddl info)\<rparr>"

section \<open>The scheduler and the debounced cache update\<close>

text \<open>
  Modelled from the spec: \<^verbatim>\<open>scheduler::once\<close> (scheduler.hpp is not among the
  sources), the spec's \<^verbatim>\<open>run_once_delayed(fn, delay)\<close>: the task runs once, at the
  first pass of the scheduler at or after the time it was scheduled plus the delay.
  The only one-shot task this component schedules is the lambda of
  \<^verbatim>\<open>schedule_pcache_update\<close>, so a waiting task is the time it is due. Times are
  in seconds.
\<close>

definition scheduler_once :: "nat \<Rightarrow> 'a world \<Rightarrow> 'a world" where
  "scheduler_once delay w = w\<lparr>once_tasks := once_tasks w @ [clock w + delay]\<rparr>"

text \<open>
  The lambda of \<^verbatim>\<open>schedule_pcache_update\<close>:
  \<^verbatim>\<open>game::PCache_DeleteEntries(...); update_triggered = false;\<close>
\<close>

definition pcache_task :: "'a world \<Rightarrow> 'a world" where
  "pcache_task w = w\<lparr>pcache_deleted := Suc (pcache_deleted w), update_triggered := False\<rparr>"

text \<open>
  Modelled from the spec: a pass of the scheduler at time \<open>t\<close>: every waiting one-shot
  task that is due runs, once, and leaves the queue.
\<close>

definition scheduler_execute :: "nat \<Rightarrow> 'a world \<Rightarrow> 'a world" where
  "scheduler_execute t w =
     fold (\<lambda>due. pcache_task) (filter (\<lambda>due. due \<le> t) (once_tasks w))
       (w\<lparr>clock := t, once_tasks := filter (\<lambda>due. \<not> due \<le> t) (once_tasks w)\<rparr>)"

text \<open>
  \<^verbatim>\<open>if (game::is_server() || update_triggered.exchange(true)) return;\<close> The exchange is
  not reached on a server; elsewhere it leaves the flag set and gives its old value.
\<close>

definition schedule_pcache_update :: "'a env \<Rightarrow> 'a world \<Rightarrow> 'a world" where
  "schedule_pcache_update e w =
     (if is_server e then w
      else if update_triggered w then w\<lparr>update_triggered := True\<rparr>
      else scheduler_once 5 (w\<lparr>update_triggered := True\<rparr>))"

section \<open>The registry and the distribution protocol\<close>

definition acquire :: "'a world \<Rightarrow> 'a world" where
  "acquire w = w\<lparr>trace := trace w @ [Acquire]\<rparr>"

definition release :: "'a world \<Rightarrow> 'a world" where
  "release w = w\<lparr>trace := trace w @ [Release]\<rparr>"

text \<open>
  \<^verbatim>\<open>profile_mapping.access(f)\<close> for a callback that changes the map: \<open>f\<close> runs
  between taking and releasing the mutex.
\<close>

definition access :: "(profile_map \<Rightarrow> profile_map) \<Rightarrow> 'a world \<Rightarrow> 'a world" where
  "access f w = release ((acquire w)\<lparr>profile_mapping := f (profile_mapping w)\<rparr>)"

definition network_send :: "'a \<Rightarrow> string \<Rightarrow> byte list \<Rightarrow> 'a world \<Rightarrow> 'a world" where
  "network_send addr tag data w = w\<lparr>trace := trace w @ [NetSend addr tag data]\<rparr>"

definition send_profile_info :: "'a \<Rightarrow> byte list \<Rightarrow> 'a world \<Rightarrow> 'a world" where
  "send_profile_info addr buffer w = network_send addr ''profileInfo'' buffer w"

text \<open>\<^verbatim>\<open>profile_info::serialize\<close> and the deserializing constructor.\<close>

definition serialize :: "profile_info \<Rightarrow> byte list \<Rightarrow> byte list" where
  "serialize info buffer = write_string (ddl info) (write_int32 (version info) buffer)"

definition profile_info_of_buffer :: "byte list \<Rightarrow> error + (profile_info \<times> byte list)" where
  "profile_info_of_buffer buffer =
     (case read_int32 buffer of
        Inl e \<Rightarrow> Inl e
      | Inr (v, rest) \<Rightarrow>
          (case read_string rest of
             Inl e \<Rightarrow> Inl e
           | Inr (s, rest') \<Rightarrow> Inr (\<lparr>version = v, ddl = s\<rparr>, rest')))"

text \<open>
  The buffer both distributing functions build:
  \<^verbatim>\<open>buffer.write(user_id); info.serialize(buffer);\<close>
\<close>

definition message_buffer :: "uint64_t \<Rightarrow> profile_info \<Rightarrow> byte list" where
  "message_buffer user_id info = serialize info (write_uint64 user_id [])"

definition distribute_profile_info ::
  "'a env \<Rightarrow> uint64_t \<Rightarrow> profile_info \<Rightarrow> 'a world \<Rightarrow> 'a world" where
  "distribute_profile_info e user_id info w =
     (if user_id = steam_id e then w
      else fold (\<lambda>client. send_profile_info (address client) (message_buffer user_id info))
             (connected_clients e) w)"

definition get_connected_client_xuids :: "'a env \<Rightarrow> uint64_t set" where
  "get_connected_client_xuids e = fold (\<lambda>client. insert (xuid client)) (connected_clients e) {}"

text \<open>The loop of \<^verbatim>\<open>clean_cached_profile_infos\<close> over the map.\<close>

fun erase_unconnected :: "uint64_t set \<Rightarrow> profile_map \<Rightarrow> profile_map" where
  "erase_unconnected xuids [] = []"
| "erase_unconnected xuids (entry # profiles) =
     (if fst entry \<in> xuids then entry # erase_unconnected xuids profiles
      else erase_unconnected xuids profiles)"

definition clean_cached_profile_infos :: "'a env \<Rightarrow> 'a world \<Rightarrow> 'a world" where
  "clean_cached_profile_infos e w =
     (if \<not> is_server_running e then w
      else access (erase_unconnected (get_connected_client_xuids e)) w)"

definition add_profile_info ::
  "'a env \<Rightarrow> uint64_t \<Rightarrow> profile_info \<Rightarrow> 'a world \<Rightarrow> 'a world" where
  "add_profile_info e user_id info w =
     (if user_id = steam_id e then w
      else schedule_pcache_update e (access (AList.update user_id info) w))"

definition distribute_profile_info_to_user ::
  "'a \<Rightarrow> uint64_t \<Rightarrow> profile_info \<Rightarrow> 'a world \<Rightarrow> 'a world" where
  "distribute_profile_info_to_user addr user_id info w =
     send_profile_info addr (message_buffer user_id info) w"

text \<open>\<^verbatim>\<open>get_profile_info()\<close>, the overload without an argument.\<close>

definition get_local_profile_info :: "'a world \<Rightarrow> profile_info option" where
  "get_local_profile_info w = load_profile_info w"

text \<open>
  \<^verbatim>\<open>distribute_profile_infos_to_user\<close>: the loop over the entries runs inside the
  callback of \<^verbatim>\<open>profile_mapping.access\<close>, the send of the local profile after it.
\<close>

definition distribute_profile_infos_to_user :: "'a env \<Rightarrow> 'a \<Rightarrow> 'a world \<Rightarrow> 'a world" where
  "distribute_profile_infos_to_user e addr w =
     (let w1 = release
            (fold (\<lambda>entry. distribute_profile_info_to_user addr (fst entry) (snd entry))
               (profile_mapping w) (acquire w))
      in if \<not> is_server e then
           (case get_local_profile_info w1 of
              Some info \<Rightarrow> distribute_profile_info_to_user addr (steam_id e) info w1
            | None \<Rightarrow> w1)
         else w1)"

definition add_and_distribute_profile_info ::
  "'a env \<Rightarrow> 'a \<Rightarrow> uint64_t \<Rightarrow> profile_info \<Rightarrow> 'a world \<Rightarrow> 'a world" where
  "add_and_distribute_profile_info e addr user_id info w =
     distribute_profile_info e user_id info
       (add_profile_info e user_id info (distribute_profile_infos_to_user e addr w))"

definition clear_profile_infos :: "'a world \<Rightarrow> 'a world" where
  "clear_profile_infos w = access (\<lambda>profiles. []) w"

text \<open>
  \<^verbatim>\<open>get_profile_info(user_id)\<close>: the local file for the local identity, otherwise
  \<^verbatim>\<open>profiles.find(user_id)\<close> under the mutex. The result comes with the world, which
  has the two events of the access more. The \<^verbatim>\<open>printf\<close> of the request is left out.
\<close>

definition get_profile_info ::
  "'a env \<Rightarrow> uint64_t \<Rightarrow> 'a world \<Rightarrow> profile_info option \<times> 'a world" where
  "get_profile_info e user_id w =
     (if user_id = steam_id e then (get_local_profile_info w, w)
      else (map_of (profile_mapping w) user_id, release (acquire w)))"

text \<open>
  The handler \<^verbatim>\<open>post_unpack\<close> registers for the tag \<^verbatim>\<open>profileInfo\<close>. A read
  beyond the end of the data is the exception of the byte buffer, which leaves the
  handler.
\<close>

definition profileInfo_handler ::
  "'a env \<Rightarrow> 'a \<Rightarrow> byte list \<Rightarrow> 'a world \<Rightarrow> error + 'a world" where
  "profileInfo_handler e server data w =
     (if \<not> is_host e server then Inr w
      else
        (case read_uint64 data of
           Inl err \<Rightarrow> Inl err
         | Inr (user_id, buffer) \<Rightarrow>
             (case profile_info_of_buffer buffer of
                Inl err \<Rightarrow> Inl err
              | Inr (info, buffer') \<Rightarrow> Inr (add_profile_info e user_id info w))))"

text \<open>
  \<^verbatim>\<open>component::post_unpack\<close>: what it registers with \<^verbatim>\<open>network::on\<close>, by tag. (It
  also hands \<^verbatim>\<open>clean_cached_profile_infos\<close> to \<^verbatim>\<open>scheduler::loop\<close>.)
\<close>

definition post_unpack ::
  "'a env \<Rightarrow> (string \<times> ('a env \<Rightarrow> 'a \<Rightarrow> byte list \<Rightarrow> 'a world \<Rightarrow> error + 'a world)) list" where
  "post_unpack e = (if is_client e then [(''profileInfo'', profileInfo_handler)] else [])"

section \<open>Observing a run\<close>

text \<open>The events a call performed: those of the world after it that the world before lacks.\<close>

definition performed :: "'a world \<Rightarrow> 'a world \<Rightarrow> 'a event list" where
  "performed w w' = drop (length (trace w)) (trace w')"

text \<open>The data of the messages sent to an address, in the order they were sent.\<close>

fun received :: "'a \<Rightarrow> 'a event list \<Rightarrow> byte list list" where
  "received addr [] = []"
| "received addr (NetSend a tag data # es) =
     (if a = addr then data # received addr es else received addr es)"
| "received addr (Acquire # es) = received addr es"
| "received addr (Release # es) = received addr es"

text \<open>
  The sends made while the mutex of the registry is held; the flag says whether it is
  held before the first event.
\<close>

fun guarded_sends :: "bool \<Rightarrow> 'a event list \<Rightarrow> 'a event list" where
  "guarded_sends held [] = []"
| "guarded_sends held (Acquire # es) = guarded_sends True es"
| "guarded_sends held (Release # es) = guarded_sends False es"
| "guarded_sends held (NetSend a tag data # es) =
     (if held then NetSend a tag data # guarded_sends held es else guarded_sends held es)"

text \<open>
  A burst of calls of \<^verbatim>\<open>schedule_pcache_update\<close>, one at each of the given times: the
  scheduler has passed at that time, then the call is made.
\<close>

fun arm_burst :: "'a env \<Rightarrow> nat list \<Rightarrow> 'a world \<Rightarrow> 'a world" where
  "arm_burst e [] w = w"
| "arm_burst e (t # ts) w = arm_burst e ts (schedule_pcache_update e (scheduler_execute t w))"

text \<open>
  The worlds the component can be in, for a local identity \<open>me\<close>: it starts with an
  empty registry, and each step is one call of a function of the component, the
  delivery of a message to the handler, or a pass of the scheduler, in any environment
  with that identity.
\<close>

inductive reachable :: "uint64_t \<Rightarrow> 'a world \<Rightarrow> bool" for me :: uint64_t where
  reachable_init: "reachable me (initial_world file)"
| reachable_add:
    "reachable me w \<Longrightarrow> steam_id e = me \<Longrightarrow> reachable me (add_profile_info e user_id info w)"
| reachable_distribute:
    "reachable me w \<Longrightarrow> steam_id e = me \<Longrightarrow> reachable me (distribute_profile_info e user_id info w)"
| reachable_to_user:
    "reachable me w \<Longrightarrow> reachable me (distribute_profile_info_to_user addr user_id info w)"
| reachable_sync:
    "reachable me w \<Longrightarrow> steam_id e = me \<Longrightarrow> reachable me (distribute_profile_infos_to_user e addr w)"
| reachable_join:
    "reachable me w \<Longrightarrow> steam_id e = me \<Longrightarrow>
     reachable me (add_and_distribute_profile_info e addr user_id info w)"
| reachable_clear: "reachable me w \<Longrightarrow> reachable me (clear_profile_infos w)"
| reachable_get:
    "reachable me w \<Longrightarrow> steam_id e = me \<Longrightarrow> reachable me (snd (get_profile_info e user_id w))"
| reachable_update: "reachable me w \<Longrightarrow> reachable me (update_profile_info info w)"
| reachable_handler:
    "reachable me w \<Longrightarrow> steam_id e = me \<Longrightarrow> profileInfo_handler e server data w = Inr w' \<Longrightarrow>
     reachable me w'"
| reachable_clean:
    "reachable me w \<Longrightarrow> steam_id e = me \<Longrightarrow> reachable me (clean_cached_profile_infos e w)"
| reachable_schedule:
    "reachable me w \<Longrightarrow> steam_id e = me \<Longrightarrow> reachable me (schedule_pcache_update e w)"
| reachable_tick: "reachable me w \<Longrightarrow> reachable me (scheduler_execute t w)"

section \<open>A session to evaluate\<close>

text \<open>
  The scenario of the spec: the local process, identity 1, hosts; peer A, identity 100,
  is connected from address 5 and has the profile info of version 1 and payload "x".
  On the side of A, the party host is at address 9.
\<close>

abbreviation hosting_env :: "nat env" where
  "hosting_env \<equiv>
     \<lparr>steam_id = 1, is_server = True, is_server_running = True, is_client = False,
      connected_clients = [\<lparr>address = 5, xuid = 100\<rparr>], is_host = (=) 9\<rparr>"

abbreviation joining_env :: "nat env" where
  "joining_env \<equiv>
     \<lparr>steam_id = 100, is_server = False, is_server_running = False, is_client = True,
      connected_clients = [], is_host = (=) 9\<rparr>"

abbreviation info_x :: profile_info where
  "info_x \<equiv> \<lparr>version = 1, ddl = [120]\<rparr>"

abbreviation empty_world :: "nat world" where
  "empty_world \<equiv> initial_world None"

abbreviation info_y :: profile_info where
  "info_y \<equiv> \<lparr>version = 2, ddl = [121]\<rparr>"

section \<open>Lemmas: bytes and the byte buffer\<close>

lemma length_le_bytes [simp]: "length (le_bytes n x) = n"
  by (induction n arbitrary: x) auto

lemma le_nat_le_bytes: "le_nat (le_bytes n x) = x mod 256 ^ n"
proof (induction n arbitrary: x)
  case 0
  show ?case by simp
next
  case (Suc n)
  have "unat (word_of_nat (x mod 256) :: byte) = x mod 256"
    by (simp add: unat_of_nat)
  then show ?case
    using Suc.IH [of "x div 256"] by (simp add: mod_mult2_eq)
qed

lemma le_bytes_numeral:
  "le_bytes (numeral k) x = word_of_nat (x mod 256) # le_bytes (pred_numeral k) (x div 256)"
  using le_bytes.simps(2) [of "pred_numeral k" x] by (simp only: numeral_eq_Suc [symmetric])

lemma le_bytes_1: "le_bytes 1 x = [word_of_nat (x mod 256)]"
  by simp

lemma int32_of_le_bytes: "(word_of_nat (le_nat (le_bytes 4 (unat (v::int32_t)))) :: int32_t) = v"
proof -
  have "unat v < 2 ^ 32"
    using unsigned_less [of v, where ?'a = nat] by simp
  then show ?thesis by (simp add: le_nat_le_bytes)
qed

lemma uint64_of_le_bytes:
  "(word_of_nat (le_nat (le_bytes 8 (unat (v::uint64_t)))) :: uint64_t) = v"
proof -
  have "unat v < 2 ^ 64"
    using unsigned_less [of v, where ?'a = nat] by simp
  then show ?thesis by (simp add: le_nat_le_bytes)
qed

lemma read_data_append: "length bs = n \<Longrightarrow> read_data n (bs @ rest) = Inr (bs, rest)"
  by (simp add: read_data_def)

lemma read_int32_write: "read_int32 (write_int32 v [] @ rest) = Inr (v, rest)"
  by (simp add: read_int32_def write_int32_def write_bytes_def read_data_append int32_of_le_bytes)

lemma read_uint64_write: "read_uint64 (write_uint64 v [] @ rest) = Inr (v, rest)"
  by (simp add: read_uint64_def write_uint64_def write_bytes_def read_data_append
      uint64_of_le_bytes)

lemma read_string_write:
  assumes "length s < 2 ^ 32"
  shows "read_string (write_string s [] @ rest) = Inr (s, rest)"
proof -
  from assms have "le_nat (le_bytes 4 (length s)) = length s"
    by (simp add: le_nat_le_bytes)
  then show ?thesis
    by (simp add: read_string_def write_string_def write_bytes_def read_data_append)
qed

lemma profile_info_of_serialize:
  assumes len: "length (ddl info) < 2 ^ 32"
  shows "profile_info_of_buffer (serialize info [] @ rest) = Inr (info, rest)"
proof -
  have "serialize info [] @ rest =
      write_int32 (version info) [] @ (write_string (ddl info) [] @ rest)"
    by (simp add: serialize_def write_string_def write_int32_def write_bytes_def)
  then show ?thesis
    by (simp add: profile_info_of_buffer_def read_int32_write read_string_write [OF len])
qed




section \<open>The serialization round trip\<close>




section \<open>Lemmas: what each function does to the world\<close>

lemma fold_send_profile_info:
  "fold (\<lambda>x. send_profile_info (a x) (b x)) xs w =
   w\<lparr>trace := trace w @ map (\<lambda>x. NetSend (a x) ''profileInfo'' (b x)) xs\<rparr>"
  by (induction xs arbitrary: w) (simp_all add: send_profile_info_def network_send_def)

lemma access_eq:
  "access f w = w\<lparr>profile_mapping := f (profile_mapping w), trace := trace w @ [Acquire, Release]\<rparr>"
  by (simp add: access_def acquire_def release_def)

lemma distribute_profile_info_eq:
  "distribute_profile_info e user_id info w =
   (if user_id = steam_id e then w
    else w\<lparr>trace := trace w @
      map (\<lambda>client. NetSend (address client) ''profileInfo'' (message_buffer user_id info))
        (connected_clients e)\<rparr>)"
  by (simp add: distribute_profile_info_def fold_send_profile_info)

lemma sync_loop_eq:
  "fold (\<lambda>entry. distribute_profile_info_to_user addr (fst entry) (snd entry)) profiles w =
   w\<lparr>trace := trace w @
     map (\<lambda>entry. NetSend addr ''profileInfo'' (message_buffer (fst entry) (snd entry))) profiles\<rparr>"
  unfolding distribute_profile_info_to_user_def by (rule fold_send_profile_info)

lemma distribute_profile_infos_to_user_eq:
  "distribute_profile_infos_to_user e addr w =
   w\<lparr>trace := trace w @ Acquire #
       map (\<lambda>entry. NetSend addr ''profileInfo'' (message_buffer (fst entry) (snd entry)))
         (profile_mapping w) @
       Release #
       (if is_server e then []
        else case load_profile_info w of
          None \<Rightarrow> []
        | Some info \<Rightarrow> [NetSend addr ''profileInfo'' (message_buffer (steam_id e) info)])\<rparr>"
  by (simp add: distribute_profile_infos_to_user_def sync_loop_eq acquire_def release_def
      get_local_profile_info_def load_profile_info_def distribute_profile_info_to_user_def
      send_profile_info_def network_send_def Let_def split: option.splits)

lemma distribute_profile_infos_to_user_fields [simp]:
  "profile_mapping (distribute_profile_infos_to_user e addr w) = profile_mapping w"
  "profile_file (distribute_profile_infos_to_user e addr w) = profile_file w"
  by (simp_all add: distribute_profile_infos_to_user_eq)

lemma schedule_pcache_update_registry [simp]:
  "profile_mapping (schedule_pcache_update e w) = profile_mapping w"
  "trace (schedule_pcache_update e w) = trace w"
  "profile_file (schedule_pcache_update e w) = profile_file w"
  by (simp_all add: schedule_pcache_update_def scheduler_once_def)

lemma add_profile_info_registry:
  "profile_mapping (add_profile_info e user_id info w) =
   (if user_id = steam_id e then profile_mapping w
    else AList.update user_id info (profile_mapping w))"
  by (simp add: add_profile_info_def access_eq)

lemma add_profile_info_trace:
  "trace (add_profile_info e user_id info w) =
   trace w @ (if user_id = steam_id e then [] else [Acquire, Release])"
  by (simp add: add_profile_info_def access_eq)

lemma add_and_distribute_profile_info_eq:
  "add_and_distribute_profile_info e addr user_id info w =
   (let w1 = distribute_profile_infos_to_user e addr w in
    if user_id = steam_id e then w1
    else (schedule_pcache_update e
            (w1\<lparr>profile_mapping := AList.update user_id info (profile_mapping w1),
                trace := trace w1 @ [Acquire, Release]\<rparr>))
         \<lparr>trace := trace w1 @ [Acquire, Release] @
            map (\<lambda>client. NetSend (address client) ''profileInfo'' (message_buffer user_id info))
              (connected_clients e)\<rparr>)"
  by (simp add: add_and_distribute_profile_info_def add_profile_info_def
      distribute_profile_info_eq access_eq Let_def)

lemma add_and_distribute_profile_info_trace:
  "trace (add_and_distribute_profile_info e addr user_id info w) =
   trace (distribute_profile_infos_to_user e addr w) @
   (if user_id = steam_id e then []
    else [Acquire, Release] @
      map (\<lambda>client. NetSend (address client) ''profileInfo'' (message_buffer user_id info))
        (connected_clients e))"
  by (simp add: add_and_distribute_profile_info_eq Let_def)

lemma fold_insert_image: "fold (\<lambda>x. insert (f x)) xs S = f ` set xs \<union> S"
  by (induction xs arbitrary: S) auto

lemma get_connected_client_xuids_eq:
  "get_connected_client_xuids e = xuid ` set (connected_clients e)"
  by (simp add: get_connected_client_xuids_def fold_insert_image)

lemma map_of_erase_unconnected:
  "map_of (erase_unconnected xuids profiles) k = (if k \<in> xuids then map_of profiles k else None)"
  by (induction profiles) auto

lemma keys_erase_unconnected:
  "map fst (erase_unconnected xuids profiles) = filter (\<lambda>k. k \<in> xuids) (map fst profiles)"
  by (induction profiles) auto

lemma clean_cached_profile_infos_eq:
  "clean_cached_profile_infos e w =
   (if is_server_running e
    then w\<lparr>profile_mapping := erase_unconnected (get_connected_client_xuids e) (profile_mapping w),
           trace := trace w @ [Acquire, Release]\<rparr>
    else w)"
  by (simp add: clean_cached_profile_infos_def access_eq)

lemma fold_pcache_task_fields [simp]:
  "profile_mapping (fold (\<lambda>due. pcache_task) xs w) = profile_mapping w"
  "trace (fold (\<lambda>due. pcache_task) xs w) = trace w"
  "profile_file (fold (\<lambda>due. pcache_task) xs w) = profile_file w"
  by (induction xs arbitrary: w) (simp_all add: pcache_task_def)

lemma scheduler_execute_fields [simp]:
  "profile_mapping (scheduler_execute t w) = profile_mapping w"
  "trace (scheduler_execute t w) = trace w"
  "profile_file (scheduler_execute t w) = profile_file w"
  by (simp_all add: scheduler_execute_def)

lemma handler_cases:
  "profileInfo_handler e server data w = Inr w' \<Longrightarrow>
   w' = w \<or> (\<exists>user_id info. w' = add_profile_info e user_id info w)"
  by (auto simp: profileInfo_handler_def split: if_splits sum.splits prod.splits)

lemma handler_trace:
  "profileInfo_handler e server data w = Inr w' \<Longrightarrow>
   trace w' = trace w \<or> trace w' = trace w @ [Acquire, Release]"
  by (auto simp: profileInfo_handler_def add_profile_info_trace
      split: if_splits sum.splits prod.splits)

lemma handler_from_host:
  assumes "is_host e server" and "length (ddl info) < 2 ^ 32"
  shows "profileInfo_handler e server (message_buffer user_id info) w =
    Inr (add_profile_info e user_id info w)"
proof -
  have "message_buffer user_id info = write_uint64 user_id [] @ serialize info []"
    by (simp add: message_buffer_def serialize_def write_string_def write_int32_def
        write_bytes_def)
  moreover have "profile_info_of_buffer (serialize info []) = Inr (info, [])"
    using profile_info_of_serialize [OF assms(2), of "[]"] by simp
  ultimately show ?thesis
    using assms(1) by (simp add: profileInfo_handler_def read_uint64_write)
qed

lemma map_of_update_other:
  "k \<noteq> user_id \<Longrightarrow> map_of (AList.update user_id info profiles) k = map_of profiles k"
  by (simp add: update_conv')

lemma message_buffer_example:
  "message_buffer 100 info_x = [100, 0, 0, 0, 0, 0, 0, 0, 1, 0, 0, 0, 1, 0, 0, 0, 120]"
  by code_simp

lemma message_buffer_example_y:
  "message_buffer 200 info_y = [200, 0, 0, 0, 0, 0, 0, 0, 2, 0, 0, 0, 1, 0, 0, 0, 121]"
  by code_simp

lemma two_peers_registry:
  "profile_mapping
     (add_profile_info hosting_env 200 info_y (add_profile_info hosting_env 100 info_x empty_world)) =
   [(100, info_x), (200, info_y)]"
  by (simp add: add_profile_info_registry initial_world_def)

section \<open>Lemmas: events\<close>

lemma performed_append [simp]: "performed w (w'\<lparr>trace := trace w @ es\<rparr>) = es"
  by (simp add: performed_def)

lemma performed_self [simp]: "performed w w = []"
  by (simp add: performed_def)

lemma performed_trace: "trace w' = trace w @ es \<Longrightarrow> performed w w' = es"
  by (simp add: performed_def)

lemma performed_trans:
  "trace w1 = trace w @ es \<Longrightarrow> trace w2 = trace w1 @ es' \<Longrightarrow>
   performed w w2 = performed w w1 @ performed w1 w2"
  by (simp add: performed_def)

lemma received_append [simp]: "received addr (es @ es') = received addr es @ received addr es'"
  by (induction addr es rule: received.induct) simp_all

lemma received_map_NetSend:
  "received addr (map (\<lambda>x. NetSend (a x) tag (b x)) xs) = map b (filter (\<lambda>x. a x = addr) xs)"
  by (induction xs) simp_all

lemma guarded_sends_map_NetSend:
  "guarded_sends held (map (\<lambda>x. NetSend (a x) tag (b x)) xs @ es) =
   (if held then map (\<lambda>x. NetSend (a x) tag (b x)) xs else []) @ guarded_sends held es"
  by (cases held) (induction xs, simp_all)+

lemma guarded_sends_unguarded:
  "guarded_sends False (map (\<lambda>x. NetSend (a x) tag (b x)) xs) = []"
  using guarded_sends_map_NetSend [of False a tag b xs "[]"] by simp

section \<open>Loading the local profile\<close>

lemma load_profile_info_Some:
  "profile_file w = Some data \<Longrightarrow> sizeof_size_t \<le> length data \<Longrightarrow>
   load_profile_info w =
     Some \<lparr>version = word_of_nat (le_nat (take 4 data)), ddl = drop 4 data\<rparr>"
  by (simp add: load_profile_info_def version_size_def)

lemma load_profile_info_None_iff:
  "load_profile_info w = None \<longleftrightarrow>
   (case profile_file w of None \<Rightarrow> True | Some data \<Rightarrow> length data < 8)"
  by (simp add: load_profile_info_def sizeof_size_t_def split: option.splits)

lemma load_after_update_profile_info:
  "load_profile_info (update_profile_info info w) =
   (if length (ddl info) < 4 then None else Some info)"
  by (simp add: load_profile_info_def update_profile_info_def sizeof_size_t_def
      version_size_def int32_of_le_bytes)

text \<open>
  Claim C1. \<^verbatim>\<open>load_profile_info\<close> is claimed to give a profile info for every stored
  file of at least four bytes. The code compares the length of the file with
  \<^verbatim>\<open>sizeof(version_size)\<close>, eight on the 64-bit target, so it answers "absent" for a
  file of four to seven bytes: for the seven bytes \<^verbatim>\<open>update_profile_info\<close> writes for
  version 7 and payload 1, 2, 3, and for the four bytes of a version with an empty
  payload.
\<close>

theorem load_profile_info_rejects_short_file:
  "profile_file (update_profile_info \<lparr>version = 7, ddl = [1, 2, 3]\<rparr> empty_world) =
     Some [7, 0, 0, 0, 1, 2, 3] \<and>
   load_profile_info (update_profile_info \<lparr>version = 7, ddl = [1, 2, 3]\<rparr> empty_world) = None \<and>
   load_profile_info (initial_world (Some [7, 0, 0, 0, 1, 2, 3]) :: nat world) = None \<and>
   load_profile_info (initial_world (Some [7, 0, 0, 0]) :: nat world) = None"
  by (simp add: load_profile_info_def update_profile_info_def initial_world_def
      sizeof_size_t_def le_bytes_numeral le_bytes_1)

section \<open>The broadcast of an update\<close>

text \<open>
  Claim C2, as amended. \<^verbatim>\<open>distribute_profile_info\<close> sends nothing when the user is
  the local identity. For any other user it sends one message, the encoded identity and
  profile info under the tag \<^verbatim>\<open>profileInfo\<close>, to the address of every connected
  client, in the order \<^verbatim>\<open>foreach_connected_client\<close> visits them, the client with
  that identity included.
\<close>

theorem distribute_profile_info_sends:
  "performed w (distribute_profile_info e user_id info w) =
   (if user_id = steam_id e then []
    else map (\<lambda>client. NetSend (address client) ''profileInfo'' (message_buffer user_id info))
           (connected_clients e))"
  by (simp add: distribute_profile_info_eq)

text \<open>
  The claim as stated fails: on the host (identity 1) with peer A (identity 100)
  connected from address 5, the broadcast of the info of user 100 delivers one message
  to address 5, the address of the client whose identity is 100.
\<close>

theorem distribute_profile_info_reaches_subject:
  "xuid \<lparr>address = 5 :: nat, xuid = 100\<rparr> = 100 \<and>
   \<lparr>address = 5, xuid = 100\<rparr> \<in> set (connected_clients hosting_env) \<and>
   received 5 (performed empty_world (distribute_profile_info hosting_env 100 info_x empty_world)) =
     [[100, 0, 0, 0, 0, 0, 0, 0, 1, 0, 0, 0, 1, 0, 0, 0, 120]]"
  by (simp add: distribute_profile_info_eq message_buffer_example)

section \<open>Sends and the mutex of the registry\<close>

text \<open>
  Claim C3, as amended. \<^verbatim>\<open>add_profile_info\<close>, \<^verbatim>\<open>distribute_profile_info\<close>,
  \<^verbatim>\<open>distribute_profile_info_to_user\<close>, \<^verbatim>\<open>clear_profile_infos\<close>,
  \<^verbatim>\<open>clean_cached_profile_infos\<close>, \<^verbatim>\<open>get_profile_info\<close> and the network handler
  send nothing while the mutex of the registry is held. \<^verbatim>\<open>distribute_profile_infos_to_user\<close>,
  and \<^verbatim>\<open>add_and_distribute_profile_info\<close> through it, send one message for each
  entry of the registry from inside the guarded access, and every other message outside
  it.
\<close>

theorem sends_inside_the_guarded_access:
  "guarded_sends False (performed w (add_profile_info e user_id info w)) = [] \<and>
   guarded_sends False (performed w (distribute_profile_info e user_id info w)) = [] \<and>
   guarded_sends False (performed w (distribute_profile_info_to_user addr user_id info w)) = [] \<and>
   guarded_sends False (performed w (clear_profile_infos w)) = [] \<and>
   guarded_sends False (performed w (clean_cached_profile_infos e w)) = [] \<and>
   guarded_sends False (performed w (snd (get_profile_info e user_id w))) = [] \<and>
   (case profileInfo_handler e addr data w of
      Inl err \<Rightarrow> True
    | Inr w' \<Rightarrow> guarded_sends False (performed w w') = []) \<and>
   guarded_sends False (performed w (distribute_profile_infos_to_user e addr w)) =
     map (\<lambda>entry. NetSend addr ''profileInfo'' (message_buffer (fst entry) (snd entry)))
       (profile_mapping w) \<and>
   guarded_sends False (performed w (add_and_distribute_profile_info e addr user_id info w)) =
     map (\<lambda>entry. NetSend addr ''profileInfo'' (message_buffer (fst entry) (snd entry)))
       (profile_mapping w)"
proof -
  let ?sync = "map (\<lambda>entry. NetSend addr ''profileInfo'' (message_buffer (fst entry) (snd entry)))
       (profile_mapping w)"
  have a: "guarded_sends False (performed w (add_profile_info e user_id info w)) = []"
    by (simp add: performed_trace [OF add_profile_info_trace])
  have b: "guarded_sends False (performed w (distribute_profile_info e user_id info w)) = []"
    by (simp add: distribute_profile_info_eq guarded_sends_unguarded)
  have c: "guarded_sends False (performed w (distribute_profile_info_to_user addr user_id info w)) = []"
    by (simp add: distribute_profile_info_to_user_def send_profile_info_def network_send_def)
  have d: "guarded_sends False (performed w (clear_profile_infos w)) = []"
    by (simp add: clear_profile_infos_def access_eq)
  have f: "guarded_sends False (performed w (clean_cached_profile_infos e w)) = []"
    by (simp add: clean_cached_profile_infos_eq)
  have g: "guarded_sends False (performed w (snd (get_profile_info e user_id w))) = []"
    by (simp add: get_profile_info_def acquire_def release_def)
  have h: "(case profileInfo_handler e addr data w of
      Inl err \<Rightarrow> True
    | Inr w' \<Rightarrow> guarded_sends False (performed w w') = [])"
  proof (cases "profileInfo_handler e addr data w")
    case (Inl err)
    then show ?thesis by simp
  next
    case (Inr w')
    from handler_trace [OF Inr] have "performed w w' = [] \<or> performed w w' = [Acquire, Release]"
      by (auto simp: performed_def)
    with Inr show ?thesis by auto
  qed
  have s1: "performed w (distribute_profile_infos_to_user e addr w) =
      Acquire # ?sync @ Release #
       (if is_server e then []
        else case load_profile_info w of
          None \<Rightarrow> []
        | Some info \<Rightarrow> [NetSend addr ''profileInfo'' (message_buffer (steam_id e) info)])"
    by (simp add: distribute_profile_infos_to_user_eq)
  have i: "guarded_sends False (performed w (distribute_profile_infos_to_user e addr w)) = ?sync"
    unfolding s1 by (simp add: guarded_sends_map_NetSend split: option.splits)
  have s3: "performed w (add_and_distribute_profile_info e addr user_id info w) =
      Acquire # ?sync @ Release #
       (if is_server e then []
        else case load_profile_info w of
          None \<Rightarrow> []
        | Some info \<Rightarrow> [NetSend addr ''profileInfo'' (message_buffer (steam_id e) info)]) @
       (if user_id = steam_id e then []
        else [Acquire, Release] @
          map (\<lambda>client. NetSend (address client) ''profileInfo'' (message_buffer user_id info))
            (connected_clients e))"
    by (rule performed_trace)
      (simp add: add_and_distribute_profile_info_trace distribute_profile_infos_to_user_eq)
  have j: "guarded_sends False (performed w (add_and_distribute_profile_info e addr user_id info w)) = ?sync"
    unfolding s3 by (simp add: guarded_sends_map_NetSend guarded_sends_unguarded split: option.splits)
  from a b c d f g h i j show ?thesis by (simp only: simp_thms)
qed

text \<open>
  The claim as stated fails: with the entry of peer A in the registry, the full sync to
  address 6 sends its message between taking and releasing the mutex.
\<close>

theorem full_sync_sends_under_the_mutex:
  "guarded_sends False
     (performed (add_profile_info hosting_env 100 info_x empty_world)
        (distribute_profile_infos_to_user hosting_env 6
           (add_profile_info hosting_env 100 info_x empty_world))) =
   [NetSend 6 ''profileInfo'' [100, 0, 0, 0, 0, 0, 0, 0, 1, 0, 0, 0, 1, 0, 0, 0, 120]]"
  by (simp add: distribute_profile_infos_to_user_eq add_profile_info_registry
      initial_world_def message_buffer_example)

section \<open>The debounced cache update\<close>

lemma fold_pcache_task:
  "fold (\<lambda>due. pcache_task) xs w =
   (if xs = [] then w
    else w\<lparr>pcache_deleted := pcache_deleted w + length xs, update_triggered := False\<rparr>)"
  by (induction xs arbitrary: w) (auto simp: pcache_task_def)

lemma scheduler_execute_idle:
  "once_tasks w = [] \<Longrightarrow> scheduler_execute t w = w\<lparr>clock := t\<rparr>"
  by (simp add: scheduler_execute_def)

lemma scheduler_execute_waiting:
  "once_tasks w = [due] \<Longrightarrow> t < due \<Longrightarrow> scheduler_execute t w = w\<lparr>clock := t\<rparr>"
  by (simp add: scheduler_execute_def)

lemma scheduler_execute_due:
  "once_tasks w = [due] \<Longrightarrow> due \<le> t \<Longrightarrow>
   scheduler_execute t w =
   w\<lparr>clock := t, once_tasks := [], pcache_deleted := Suc (pcache_deleted w),
     update_triggered := False\<rparr>"
  by (simp add: scheduler_execute_def pcache_task_def)

lemma schedule_pcache_update_server: "is_server e \<Longrightarrow> schedule_pcache_update e w = w"
  by (simp add: schedule_pcache_update_def)

lemma schedule_pcache_update_pending:
  "\<not> is_server e \<Longrightarrow> update_triggered w \<Longrightarrow> schedule_pcache_update e w = w"
  by (simp add: schedule_pcache_update_def)

lemma schedule_pcache_update_idle:
  "\<not> is_server e \<Longrightarrow> \<not> update_triggered w \<Longrightarrow>
   schedule_pcache_update e w =
   w\<lparr>update_triggered := True, once_tasks := once_tasks w @ [clock w + 5]\<rparr>"
  by (simp add: schedule_pcache_update_def scheduler_once_def)

lemma arm_burst_pending:
  "\<not> is_server e \<Longrightarrow> update_triggered w \<Longrightarrow> once_tasks w = [due] \<Longrightarrow>
   \<forall>t \<in> set ts. t < due \<Longrightarrow>
   arm_burst e ts w = w\<lparr>clock := last (clock w # ts)\<rparr>"
proof (induction ts arbitrary: w)
  case Nil
  then show ?case by simp
next
  case (Cons t ts)
  let ?w = "w\<lparr>clock := t\<rparr>"
  from Cons.prems have step: "schedule_pcache_update e (scheduler_execute t w) = ?w"
    by (simp add: scheduler_execute_waiting schedule_pcache_update_pending)
  from Cons.prems have "arm_burst e ts ?w = ?w\<lparr>clock := last (clock ?w # ts)\<rparr>"
    by (intro Cons.IH) simp_all
  with step show ?case by simp
qed

lemma arm_burst_server:
  "is_server e \<Longrightarrow> once_tasks w = [] \<Longrightarrow> arm_burst e ts w = w\<lparr>clock := last (clock w # ts)\<rparr>"
proof (induction ts arbitrary: w)
  case Nil
  then show ?case by simp
next
  case (Cons t ts)
  let ?w = "w\<lparr>clock := t\<rparr>"
  from Cons.prems have step: "schedule_pcache_update e (scheduler_execute t w) = ?w"
    by (simp add: scheduler_execute_idle schedule_pcache_update_server)
  from Cons.prems have "arm_burst e ts ?w = ?w\<lparr>clock := last (clock ?w # ts)\<rparr>"
    by (intro Cons.IH) simp_all
  with step show ?case by simp
qed

lemma arm_burst_first:
  assumes "\<not> is_server e" "\<not> update_triggered w" "once_tasks w = []"
    "\<forall>t \<in> set ts. t < t0 + 5"
  shows "arm_burst e (t0 # ts) w =
    w\<lparr>clock := last (t0 # ts), update_triggered := True, once_tasks := [t0 + 5]\<rparr>"
proof -
  let ?w = "w\<lparr>clock := t0, update_triggered := True, once_tasks := [t0 + 5]\<rparr>"
  from assms have "schedule_pcache_update e (scheduler_execute t0 w) = ?w"
    by (simp add: scheduler_execute_idle schedule_pcache_update_idle)
  moreover from assms have "arm_burst e ts ?w = ?w\<lparr>clock := last (clock ?w # ts)\<rparr>"
    by (intro arm_burst_pending) simp_all
  ultimately show ?thesis by simp
qed

text \<open>
  Claim C4. Let the trigger be idle: the flag clear and no task waiting. When not
  hosting, a burst of calls of \<^verbatim>\<open>schedule_pcache_update\<close>, the first at time \<open>t0\<close>
  and the others within the five seconds after it, deletes nothing by itself; a pass of
  the scheduler before \<open>t0 + 5\<close> deletes nothing; a pass at or after \<open>t0 + 5\<close> runs
  \<^verbatim>\<open>PCache_DeleteEntries\<close> exactly once, clears the flag and leaves no task waiting,
  any later pass deletes nothing more, and the next call schedules a new task. When
  hosting, no burst of calls, whatever its times, leads to a deletion at any pass.
\<close>

theorem debounced_update_fires_once:
  assumes "\<not> update_triggered w" and "once_tasks w = []"
  shows "(\<not> is_server e \<and> (\<forall>t \<in> set ts. t0 \<le> t \<and> t < t0 + 5) \<longrightarrow>
      pcache_deleted (arm_burst e (t0 # ts) w) = pcache_deleted w \<and>
      (\<forall>T < t0 + 5. pcache_deleted (scheduler_execute T (arm_burst e (t0 # ts) w)) =
          pcache_deleted w) \<and>
      (\<forall>T \<ge> t0 + 5.
          pcache_deleted (scheduler_execute T (arm_burst e (t0 # ts) w)) =
            Suc (pcache_deleted w) \<and>
          \<not> update_triggered (scheduler_execute T (arm_burst e (t0 # ts) w)) \<and>
          once_tasks (scheduler_execute T (arm_burst e (t0 # ts) w)) = [] \<and>
          (\<forall>T' \<ge> T. pcache_deleted
              (scheduler_execute T' (scheduler_execute T (arm_burst e (t0 # ts) w))) =
            Suc (pcache_deleted w)) \<and>
          once_tasks (schedule_pcache_update e
              (scheduler_execute T (arm_burst e (t0 # ts) w))) = [T + 5])) \<and>
     (is_server e \<longrightarrow>
      (\<forall>T. pcache_deleted (scheduler_execute T (arm_burst e ts w)) = pcache_deleted w))"
proof (intro conjI impI)
  assume a: "\<not> is_server e \<and> (\<forall>t \<in> set ts. t0 \<le> t \<and> t < t0 + 5)"
  let ?b = "arm_burst e (t0 # ts) w"
  from a assms have b: "?b = w\<lparr>clock := last (t0 # ts), update_triggered := True,
      once_tasks := [t0 + 5]\<rparr>"
    by (intro arm_burst_first) simp_all
  then have tasks: "once_tasks ?b = [t0 + 5]" by simp
  show "pcache_deleted ?b = pcache_deleted w"
    by (simp add: b del: arm_burst.simps)
  show "\<forall>T < t0 + 5. pcache_deleted (scheduler_execute T ?b) = pcache_deleted w"
    using tasks by (simp add: scheduler_execute_waiting b del: arm_burst.simps)
  show "\<forall>T \<ge> t0 + 5.
          pcache_deleted (scheduler_execute T ?b) = Suc (pcache_deleted w) \<and>
          \<not> update_triggered (scheduler_execute T ?b) \<and>
          once_tasks (scheduler_execute T ?b) = [] \<and>
          (\<forall>T' \<ge> T. pcache_deleted (scheduler_execute T' (scheduler_execute T ?b)) =
            Suc (pcache_deleted w)) \<and>
          once_tasks (schedule_pcache_update e (scheduler_execute T ?b)) = [T + 5]"
  proof (intro allI impI)
    fix T assume T: "t0 + 5 \<le> T"
    from tasks T have f: "scheduler_execute T ?b =
        ?b\<lparr>clock := T, once_tasks := [], pcache_deleted := Suc (pcache_deleted ?b),
          update_triggered := False\<rparr>"
      by (rule scheduler_execute_due)
    show "pcache_deleted (scheduler_execute T ?b) = Suc (pcache_deleted w) \<and>
          \<not> update_triggered (scheduler_execute T ?b) \<and>
          once_tasks (scheduler_execute T ?b) = [] \<and>
          (\<forall>T' \<ge> T. pcache_deleted (scheduler_execute T' (scheduler_execute T ?b)) =
            Suc (pcache_deleted w)) \<and>
          once_tasks (schedule_pcache_update e (scheduler_execute T ?b)) = [T + 5]"
      unfolding f using a
      by (simp add: b scheduler_execute_idle schedule_pcache_update_idle del: arm_burst.simps)
  qed
next
  assume s: "is_server e"
  show "\<forall>T. pcache_deleted (scheduler_execute T (arm_burst e ts w)) = pcache_deleted w"
    using assms s by (simp add: arm_burst_server scheduler_execute_idle)
qed

text \<open>
  A client arms at the times 10, 11 and 14: nothing is deleted by a pass at 14, one
  deletion has happened by the pass at 15 and no further one at 30, and a call after
  the firing schedules a task for 20. The host arms at the same times: no deletion.
\<close>

theorem debounced_update_fires_once_witness:
  "\<not> update_triggered empty_world \<and> once_tasks empty_world = [] \<and>
   \<not> is_server joining_env \<and> (10 \<le> (11::nat) \<and> (11::nat) < 10 + 5) \<and>
   (10 \<le> (14::nat) \<and> (14::nat) < 10 + 5) \<and>
   pcache_deleted (arm_burst joining_env [10, 11, 14] empty_world) = 0 \<and>
   pcache_deleted (scheduler_execute 14 (arm_burst joining_env [10, 11, 14] empty_world)) = 0 \<and>
   pcache_deleted (scheduler_execute 15 (arm_burst joining_env [10, 11, 14] empty_world)) = 1 \<and>
   pcache_deleted (scheduler_execute 30
     (scheduler_execute 15 (arm_burst joining_env [10, 11, 14] empty_world))) = 1 \<and>
   once_tasks (schedule_pcache_update joining_env
     (scheduler_execute 15 (arm_burst joining_env [10, 11, 14] empty_world))) = [20] \<and>
   is_server hosting_env \<and>
   pcache_deleted (scheduler_execute 30 (arm_burst hosting_env [10, 11, 14] empty_world)) = 0"
proof -
  have idle: "\<not> update_triggered empty_world" "once_tasks empty_world = []"
    by (simp_all add: initial_world_def)
  have zero: "pcache_deleted empty_world = 0"
    by (simp add: initial_world_def)
  from debounced_update_fires_once [OF idle, of joining_env "[11, 14]" 10]
    debounced_update_fires_once [OF idle, of hosting_env "[10, 11, 14]"]
    idle zero
  show ?thesis
    by (simp del: arm_burst.simps)
qed

section \<open>The join composite\<close>

text \<open>
  Claim C5. Of what \<^verbatim>\<open>add_and_distribute_profile_info\<close> performs, the target
  address receives, in this order: one full-sync message for each entry the registry
  held before the call (then the local profile, when not hosting and the file loads),
  and only then the broadcast messages for the new identity (one for each connected
  client at that address, none when the identity is the local one). The events of the
  full sync come first among the events of the call, the registry at the end of the
  full sync is still the one before the call, and the registry after the call holds the
  new entry, unless the identity is the local one.
\<close>

theorem join_sync_before_broadcast:
  "received addr (performed w (add_and_distribute_profile_info e addr user_id info w)) =
     map (\<lambda>entry. message_buffer (fst entry) (snd entry)) (profile_mapping w) @
     (if is_server e then []
      else case load_profile_info w of
        None \<Rightarrow> []
      | Some own \<Rightarrow> [message_buffer (steam_id e) own]) @
     (if user_id = steam_id e then []
      else map (\<lambda>client. message_buffer user_id info)
             (filter (\<lambda>client. address client = addr) (connected_clients e))) \<and>
   performed w (add_and_distribute_profile_info e addr user_id info w) =
     performed w (distribute_profile_infos_to_user e addr w) @
     performed (distribute_profile_infos_to_user e addr w)
       (add_and_distribute_profile_info e addr user_id info w) \<and>
   profile_mapping (distribute_profile_infos_to_user e addr w) = profile_mapping w \<and>
   profile_mapping (add_and_distribute_profile_info e addr user_id info w) =
     (if user_id = steam_id e then profile_mapping w
      else AList.update user_id info (profile_mapping w))"
proof -
  let ?w1 = "distribute_profile_infos_to_user e addr w"
  let ?w3 = "add_and_distribute_profile_info e addr user_id info w"
  let ?sync = "Acquire #
       map (\<lambda>entry. NetSend addr ''profileInfo'' (message_buffer (fst entry) (snd entry)))
         (profile_mapping w) @
       Release #
       (if is_server e then []
        else case load_profile_info w of
          None \<Rightarrow> []
        | Some info \<Rightarrow> [NetSend addr ''profileInfo'' (message_buffer (steam_id e) info)])"
  let ?rest = "if user_id = steam_id e then []
    else [Acquire, Release] @
      map (\<lambda>client. NetSend (address client) ''profileInfo'' (message_buffer user_id info))
        (connected_clients e)"
  have t1: "trace ?w1 = trace w @ ?sync"
    by (simp add: distribute_profile_infos_to_user_eq)
  have t3: "trace ?w3 = trace ?w1 @ ?rest"
    by (rule add_and_distribute_profile_info_trace)
  have p1: "performed w ?w1 = ?sync"
    using t1 by (rule performed_trace)
  have p13: "performed ?w1 ?w3 = ?rest"
    using t3 by (rule performed_trace)
  have split: "performed w ?w3 = performed w ?w1 @ performed ?w1 ?w3"
    using t1 t3 by (rule performed_trans)
  have r1: "received addr ?sync =
     map (\<lambda>entry. message_buffer (fst entry) (snd entry)) (profile_mapping w) @
     (if is_server e then []
      else case load_profile_info w of
        None \<Rightarrow> []
      | Some own \<Rightarrow> [message_buffer (steam_id e) own])"
    using received_map_NetSend [of addr "\<lambda>entry. addr" "''profileInfo''"
        "\<lambda>entry. message_buffer (fst entry) (snd entry)" "profile_mapping w"]
    by (simp split: option.splits)
  have r3: "received addr ?rest =
     (if user_id = steam_id e then []
      else map (\<lambda>client. message_buffer user_id info)
             (filter (\<lambda>client. address client = addr) (connected_clients e)))"
    by (simp add: received_map_NetSend)
  have m3: "profile_mapping ?w3 =
     (if user_id = steam_id e then profile_mapping w
      else AList.update user_id info (profile_mapping w))"
    by (simp add: add_and_distribute_profile_info_eq Let_def)
  have "received addr (performed w ?w3) = received addr ?sync @ received addr ?rest"
    by (simp only: split p1 p13 received_append)
  with r1 r3 split m3 show ?thesis
    by (simp only: distribute_profile_infos_to_user_fields append_assoc simp_thms)
qed

text \<open>
  On the host, peer A joins from address 5 into the empty registry: address 5 receives
  no full-sync message, only the broadcast for A, and the registry then holds the
  entry of A. A second identity, 200, then joins from the same address: address 5
  receives the full-sync message for the entry of A first and the broadcast for 200
  after it.
\<close>

theorem join_sync_before_broadcast_witness:
  "received 5 (performed empty_world
       (add_and_distribute_profile_info hosting_env 5 100 info_x empty_world)) =
     [[100, 0, 0, 0, 0, 0, 0, 0, 1, 0, 0, 0, 1, 0, 0, 0, 120]] \<and>
   profile_mapping (add_and_distribute_profile_info hosting_env 5 100 info_x empty_world) =
     [(100, info_x)] \<and>
   received 5 (performed (add_and_distribute_profile_info hosting_env 5 100 info_x empty_world)
       (add_and_distribute_profile_info hosting_env 5 200 info_y
          (add_and_distribute_profile_info hosting_env 5 100 info_x empty_world))) =
     [[100, 0, 0, 0, 0, 0, 0, 0, 1, 0, 0, 0, 1, 0, 0, 0, 120],
      [200, 0, 0, 0, 0, 0, 0, 0, 2, 0, 0, 0, 1, 0, 0, 0, 121]]"
proof -
  let ?w1 = "add_and_distribute_profile_info hosting_env 5 100 info_x empty_world"
  have empty: "profile_mapping empty_world = []"
    by (simp add: initial_world_def)
  note first = join_sync_before_broadcast [of 5 empty_world hosting_env 100 info_x]
  note second = join_sync_before_broadcast [of 5 ?w1 hosting_env 200 info_y]
  from first empty have reg: "profile_mapping ?w1 = [(100, info_x)]"
    by simp
  from first [THEN conjunct1] empty
  have r1: "received 5 (performed empty_world ?w1) =
      [[100, 0, 0, 0, 0, 0, 0, 0, 1, 0, 0, 0, 1, 0, 0, 0, 120]]"
    by (simp add: message_buffer_example)
  from second [THEN conjunct1] reg
  have r2: "received 5 (performed ?w1
      (add_and_distribute_profile_info hosting_env 5 200 info_y ?w1)) =
      [[100, 0, 0, 0, 0, 0, 0, 0, 1, 0, 0, 0, 1, 0, 0, 0, 120],
       [200, 0, 0, 0, 0, 0, 0, 0, 2, 0, 0, 0, 1, 0, 0, 0, 121]]"
    by (simp add: message_buffer_example message_buffer_example_y)
  from r1 reg r2 show ?thesis
    by (simp only: simp_thms)
qed

section \<open>Membership reconciliation\<close>

text \<open>
  Claim C6. With the server running, \<^verbatim>\<open>clean_cached_profile_infos\<close> computes the
  set of the identities of the connected clients; after it the lookup of every identity
  outside that set is absent and the lookup of every identity in the set is what it
  was; the sweep performs no send (its only events are taking and releasing the mutex)
  and changes nothing of the world but the registry.
\<close>

theorem sweep_retains_connected:
  "is_server_running e \<Longrightarrow>
   get_connected_client_xuids e = xuid ` set (connected_clients e) \<and>
   (\<forall>user_id. user_id \<notin> get_connected_client_xuids e \<longrightarrow>
      map_of (profile_mapping (clean_cached_profile_infos e w)) user_id = None) \<and>
   (\<forall>user_id \<in> get_connected_client_xuids e.
      map_of (profile_mapping (clean_cached_profile_infos e w)) user_id =
      map_of (profile_mapping w) user_id) \<and>
   performed w (clean_cached_profile_infos e w) = [Acquire, Release] \<and>
   (clean_cached_profile_infos e w)\<lparr>profile_mapping := profile_mapping w, trace := trace w\<rparr> = w"
  by (simp add: clean_cached_profile_infos_eq map_of_erase_unconnected
      get_connected_client_xuids_eq)

text \<open>
  On the host with peer A connected, the registry holds the identities 100 and 200:
  the sweep drops 200 and keeps the entry of 100.
\<close>

theorem sweep_retains_connected_witness:
  "is_server_running hosting_env \<and>
   get_connected_client_xuids hosting_env = {100} \<and>
   map_of (profile_mapping
     (add_profile_info hosting_env 200 info_y
        (add_profile_info hosting_env 100 info_x empty_world))) 200 = Some info_y \<and>
   map_of (profile_mapping (clean_cached_profile_infos hosting_env
     (add_profile_info hosting_env 200 info_y
        (add_profile_info hosting_env 100 info_x empty_world)))) 200 = None \<and>
   map_of (profile_mapping (clean_cached_profile_infos hosting_env
     (add_profile_info hosting_env 200 info_y
        (add_profile_info hosting_env 100 info_x empty_world)))) 100 = Some info_x"
proof -
  have run: "is_server_running hosting_env" by simp
  from sweep_retains_connected [OF run,
      of "add_profile_info hosting_env 200 info_y
        (add_profile_info hosting_env 100 info_x empty_world)"]
  show ?thesis
    by (simp add: two_peers_registry)
qed

section \<open>Ingest and lookup\<close>

text \<open>
  Claim C7. For an identity other than the local one, \<^verbatim>\<open>add_profile_info\<close>
  followed by \<^verbatim>\<open>get_profile_info\<close> of that identity gives exactly the info that
  was added.
\<close>

theorem add_then_get_profile_info:
  "user_id \<noteq> steam_id e \<Longrightarrow> steam_id e' = steam_id e \<Longrightarrow>
   fst (get_profile_info e' user_id (add_profile_info e user_id info w)) = Some info"
  by (simp add: get_profile_info_def add_profile_info_registry update_conv')

theorem add_then_get_profile_info_witness:
  "(100 :: uint64_t) \<noteq> steam_id hosting_env \<and>
   fst (get_profile_info hosting_env 100 (add_profile_info hosting_env 100 info_x empty_world)) =
     Some info_x"
proof -
  have ne: "(100 :: uint64_t) \<noteq> steam_id hosting_env" by simp
  from add_then_get_profile_info [OF ne refl, of info_x empty_world] ne
  show ?thesis by simp
qed

section \<open>The registry never holds the local identity\<close>

lemma reachable_distinct_keys: "reachable me w \<Longrightarrow> distinct (map fst (profile_mapping w))"
proof (induction rule: reachable.induct)
  case (reachable_handler w e server data w')
  from handler_cases [OF reachable_handler.hyps(3)] reachable_handler.IH
  show ?case by (auto simp: add_profile_info_registry distinct_update)
qed (simp_all add: initial_world_def add_profile_info_registry distinct_update
    distribute_profile_info_eq distribute_profile_info_to_user_def send_profile_info_def
    network_send_def add_and_distribute_profile_info_eq Let_def clear_profile_infos_def access_eq
    get_profile_info_def acquire_def release_def update_profile_info_def
    clean_cached_profile_infos_eq keys_erase_unconnected)

text \<open>
  Claim C9. In every world the component reaches from the empty registry, by any
  sequence of calls of its functions, deliveries to the network handler, sweeps and
  passes of the scheduler, the registry has no entry under the local identity.
\<close>

theorem registry_never_holds_local_identity:
  "reachable me w \<Longrightarrow> map_of (profile_mapping w) me = None"
proof (induction rule: reachable.induct)
  case (reachable_handler w e server data w')
  from handler_cases [OF reachable_handler.hyps(3)] reachable_handler.IH
    reachable_handler.hyps(2)
  show ?case by (auto simp: add_profile_info_registry map_of_update_other)
qed (simp_all add: initial_world_def add_profile_info_registry map_of_update_other
    distribute_profile_info_eq distribute_profile_info_to_user_def send_profile_info_def
    network_send_def add_and_distribute_profile_info_eq Let_def clear_profile_infos_def access_eq
    get_profile_info_def acquire_def release_def update_profile_info_def
    clean_cached_profile_infos_eq map_of_erase_unconnected)

text \<open>
  After the host has added peer A and has been asked to add its own identity, the
  registry holds the entry of A and none of its own.
\<close>

theorem registry_never_holds_local_identity_witness:
  "reachable 1
     (add_profile_info hosting_env 1 info_y (add_profile_info hosting_env 100 info_x empty_world)) \<and>
   map_of (profile_mapping
     (add_profile_info hosting_env 1 info_y
        (add_profile_info hosting_env 100 info_x empty_world))) 100 = Some info_x \<and>
   map_of (profile_mapping
     (add_profile_info hosting_env 1 info_y
        (add_profile_info hosting_env 100 info_x empty_world))) 1 = None"
proof -
  have id: "steam_id hosting_env = 1" by simp
  have r: "reachable 1
     (add_profile_info hosting_env 1 info_y (add_profile_info hosting_env 100 info_x empty_world))"
    by (intro reachable_add reachable_init id)
  have "map_of (profile_mapping
     (add_profile_info hosting_env 1 info_y
        (add_profile_info hosting_env 100 info_x empty_world))) 100 = Some info_x"
    by (simp add: add_profile_info_registry initial_world_def)
  with r registry_never_holds_local_identity [OF r] show ?thesis
    by (simp only: simp_thms)
qed

section \<open>The network handler\<close>

text \<open>
  Claim C10. The handler registered under the tag \<^verbatim>\<open>profileInfo\<close> returns at
  once, with the world as it was, for every message whose origin is not the party
  host, whatever its data.
\<close>

theorem handler_ignores_non_host:
  "\<not> is_host e server \<Longrightarrow> map_of (post_unpack e) ''profileInfo'' = Some handler \<Longrightarrow>
   handler e server data w = Inr w"
  by (auto simp: post_unpack_def profileInfo_handler_def split: if_splits)

text \<open>
  On a client whose host is at address 9: a message from address 7 leaves the world
  unchanged, be it well-formed or empty; the same well-formed message from the host is
  ingested, and an empty one from the host fails the decode.
\<close>

theorem handler_ignores_non_host_witness:
  "\<not> is_host joining_env 7 \<and>
   map_of (post_unpack joining_env) ''profileInfo'' = Some profileInfo_handler \<and>
   profileInfo_handler joining_env 7 (message_buffer 200 info_y) empty_world = Inr empty_world \<and>
   profileInfo_handler joining_env 7 [] empty_world = Inr empty_world \<and>
   profileInfo_handler joining_env 9 (message_buffer 200 info_y) empty_world =
     Inr (add_profile_info joining_env 200 info_y empty_world) \<and>
   profileInfo_handler joining_env 9 [] empty_world = Inl OutOfBounds"
proof -
  have nh: "\<not> is_host joining_env 7" by simp
  have reg: "map_of (post_unpack joining_env) ''profileInfo'' = Some profileInfo_handler"
    by (simp add: post_unpack_def)
  have host: "profileInfo_handler joining_env 9 (message_buffer 200 info_y) empty_world =
      Inr (add_profile_info joining_env 200 info_y empty_world)"
    by (rule handler_from_host) simp_all
  have short: "profileInfo_handler joining_env 9 [] empty_world = Inl OutOfBounds"
    by (simp add: profileInfo_handler_def read_uint64_def read_data_def)
  from handler_ignores_non_host [OF nh reg, of "message_buffer 200 info_y" empty_world]
    handler_ignores_non_host [OF nh reg, of "[]" empty_world] nh reg host short
  show ?thesis by (simp only: simp_thms)
qed

end
